theory Spec2Isabelle
  imports Complex_Main
begin

section \<open>Ecosystem simulation core (game\_v3/src/model/model.ts)\<close>

text \<open>
  JavaScript numbers are modelled as real numbers.  The one place where the
  source can leave the reals is the division by a distance when a unit
  direction vector is computed; coordinates of the mobile entities therefore
  range over \<open>jsnum\<close>, the reals extended by \<open>NaN\<close>.  In real arithmetic the only
  division by zero that can arise there is \<open>0 / 0\<close>.  \<open>Math.random()\<close> is a
  random source \<open>R :: nat \<Rightarrow> real\<close> read at an index that the state carries.
\<close>

subsection \<open>Constants\<close>

definition GRID_SIZE :: real where "GRID_SIZE = 20"
definition ECOSYSTEM_SCALE :: real where "ECOSYSTEM_SCALE = 0.5"

definition DEER_EATING_RADIUS_BASE :: real where "DEER_EATING_RADIUS_BASE = 0.03"
definition DEER_CROWDING_RADIUS_BASE :: real where "DEER_CROWDING_RADIUS_BASE = 0.15"
definition WOLF_KILL_RADIUS_BASE :: real where "WOLF_KILL_RADIUS_BASE = 0.035"
definition WOLF_CROWDING_RADIUS_BASE :: real where "WOLF_CROWDING_RADIUS_BASE = 0.3"

definition DEER_CROWDING_DEATH_PENALTY :: real where "DEER_CROWDING_DEATH_PENALTY = 0.002"
definition WOLF_CROWDING_DEATH_PENALTY :: real where "WOLF_CROWDING_DEATH_PENALTY = 0.006"
definition TREE_CROWDED_DEATH_BASE :: real where "TREE_CROWDED_DEATH_BASE = 0.5"

definition MIN_CROWDING_GROWTH_REDUCTION :: real where "MIN_CROWDING_GROWTH_REDUCTION = 0.25"
definition MIN_CROWDING_DEATH_MULTIPLIER :: real where "MIN_CROWDING_DEATH_MULTIPLIER = 0.40"

definition DEER_MAX_ENERGY :: real where "DEER_MAX_ENERGY = 2.0"
definition DEER_REPRODUCE_THRESHOLD :: real where "DEER_REPRODUCE_THRESHOLD = 1.0"
definition DEER_REPRODUCE_AGE :: real where "DEER_REPRODUCE_AGE = 10"
definition DEER_REPRODUCTION_COST :: real where "DEER_REPRODUCTION_COST = 0.5"

definition WOLF_MAX_ENERGY :: real where "WOLF_MAX_ENERGY = 2.5"
definition WOLF_REPRODUCE_THRESHOLD :: real where "WOLF_REPRODUCE_THRESHOLD = 1.0"
definition WOLF_REPRODUCE_AGE :: real where "WOLF_REPRODUCE_AGE = 5"
definition WOLF_REPRODUCTION_COST :: real where "WOLF_REPRODUCTION_COST = 0.6"
definition WOLF_HUNT_SUCCESS_BASE :: real where "WOLF_HUNT_SUCCESS_BASE = 0.7"

definition DEFAULT_TREE_COUNT :: nat where "DEFAULT_TREE_COUNT = 120"
definition DEFAULT_DEER_COUNT :: nat where "DEFAULT_DEER_COUNT = 30"
definition DEFAULT_WOLF_COUNT :: nat where "DEFAULT_WOLF_COUNT = 6"

subsection \<open>Bound tables\<close>

record Bound =
  bmin :: real
  bmax :: real

record TreeBounds =
  TB_MaxSize :: Bound
  TB_AgeToSpread :: Bound
  TB_SpreadDistance :: Bound
  TB_DeathChance :: Bound
  TB_SpreadChance :: Bound
  TB_OptimalMoisture :: Bound
  TB_CrowdingSusceptibility :: Bound

record DeerBounds =
  DB_MaxSize :: Bound
  DB_Speed :: Bound
  DB_DeathChance :: Bound
  DB_ReproduceChance :: Bound
  DB_CrowdingSusceptibility :: Bound
  DB_MaxEatableSize :: Bound
  DB_EnergyNeeds :: Bound

record WolfBounds =
  WB_MaxSize :: Bound
  WB_Speed :: Bound
  WB_DeathChance :: Bound
  WB_ReproduceChance :: Bound
  WB_CrowdingSusceptibility :: Bound
  WB_EnergyNeeds :: Bound

definition TREE_BOUNDS :: TreeBounds where
  "TREE_BOUNDS = \<lparr>
     TB_MaxSize = \<lparr>bmin = 5, bmax = 25\<rparr>,
     TB_AgeToSpread = \<lparr>bmin = 3, bmax = 20\<rparr>,
     TB_SpreadDistance = \<lparr>bmin = 0.03, bmax = 0.15\<rparr>,
     TB_DeathChance = \<lparr>bmin = 0.002, bmax = 0.025\<rparr>,
     TB_SpreadChance = \<lparr>bmin = 0.08, bmax = 0.25\<rparr>,
     TB_OptimalMoisture = \<lparr>bmin = 0, bmax = 1\<rparr>,
     TB_CrowdingSusceptibility = \<lparr>bmin = 0.5, bmax = 2.0\<rparr>\<rparr>"

definition DEER_BOUNDS :: DeerBounds where
  "DEER_BOUNDS = \<lparr>
     DB_MaxSize = \<lparr>bmin = 2, bmax = 5\<rparr>,
     DB_Speed = \<lparr>bmin = 0.003, bmax = 0.015\<rparr>,
     DB_DeathChance = \<lparr>bmin = 0.00001, bmax = 0.0001\<rparr>,
     DB_ReproduceChance = \<lparr>bmin = 0.4, bmax = 0.98\<rparr>,
     DB_CrowdingSusceptibility = \<lparr>bmin = 0.5, bmax = 2.0\<rparr>,
     DB_MaxEatableSize = \<lparr>bmin = 3, bmax = 15\<rparr>,
     DB_EnergyNeeds = \<lparr>bmin = 0.01, bmax = 0.05\<rparr>\<rparr>"

definition WOLF_BOUNDS :: WolfBounds where
  "WOLF_BOUNDS = \<lparr>
     WB_MaxSize = \<lparr>bmin = 2.5, bmax = 6\<rparr>,
     WB_Speed = \<lparr>bmin = 0.008, bmax = 0.025\<rparr>,
     WB_DeathChance = \<lparr>bmin = 0.00001, bmax = 0.0003\<rparr>,
     WB_ReproduceChance = \<lparr>bmin = 0.05, bmax = 0.35\<rparr>,
     WB_CrowdingSusceptibility = \<lparr>bmin = 0.5, bmax = 2.0\<rparr>,
     WB_EnergyNeeds = \<lparr>bmin = 0.025, bmax = 0.12\<rparr>\<rparr>"

subsection \<open>Numbers that may be NaN\<close>

datatype jsnum = Num real | NaN

fun jsAdd :: "jsnum \<Rightarrow> jsnum \<Rightarrow> jsnum" where
  "jsAdd (Num a) (Num b) = Num (a + b)"
| "jsAdd _ _ = NaN"

fun jsSub :: "jsnum \<Rightarrow> jsnum \<Rightarrow> jsnum" where
  "jsSub (Num a) (Num b) = Num (a - b)"
| "jsSub _ _ = NaN"

fun jsMul :: "jsnum \<Rightarrow> jsnum \<Rightarrow> jsnum" where
  "jsMul (Num a) (Num b) = Num (a * b)"
| "jsMul _ _ = NaN"

text \<open>Division: a zero divisor gives a non-finite result (\<open>0 / 0\<close> is NaN).\<close>

fun jsDiv :: "jsnum \<Rightarrow> jsnum \<Rightarrow> jsnum" where
  "jsDiv (Num a) (Num b) = (if b = 0 then NaN else Num (a / b))"
| "jsDiv _ _ = NaN"

fun jsSqrt :: "jsnum \<Rightarrow> jsnum" where
  "jsSqrt (Num a) = (if a < 0 then NaN else Num (sqrt a))"
| "jsSqrt NaN = NaN"

text \<open>Comparisons with NaN are false.\<close>

fun jsLess :: "jsnum \<Rightarrow> jsnum \<Rightarrow> bool" where
  "jsLess (Num a) (Num b) = (a < b)"
| "jsLess _ _ = False"

fun jsLessEq :: "jsnum \<Rightarrow> jsnum \<Rightarrow> bool" where
  "jsLessEq (Num a) (Num b) = (a \<le> b)"
| "jsLessEq _ _ = False"

fun jsFloor :: "jsnum \<Rightarrow> jsnum" where
  "jsFloor (Num a) = Num (of_int \<lfloor>a\<rfloor>)"
| "jsFloor NaN = NaN"

fun jsAbs :: "jsnum \<Rightarrow> jsnum" where
  "jsAbs (Num a) = Num \<bar>a\<bar>"
| "jsAbs NaN = NaN"

text \<open>The remainder \<open>a % 1\<close> of JavaScript truncates towards zero.\<close>

definition rem1 :: "real \<Rightarrow> real" where
  "rem1 a = (if 0 \<le> a then a - of_int \<lfloor>a\<rfloor> else a - of_int \<lceil>a\<rceil>)"

fun jsRem1 :: "jsnum \<Rightarrow> jsnum" where
  "jsRem1 (Num a) = Num (rem1 a)"
| "jsRem1 NaN = NaN"

fun isFinite :: "jsnum \<Rightarrow> bool" where
  "isFinite (Num a) = True"
| "isFinite NaN = False"

subsection \<open>Types\<close>

record TreeCharacteristics =
  T_MaxSize :: real
  T_AgeToSpread :: real
  T_SpreadDistance :: real
  T_DeathChance :: real
  T_SpreadChance :: real
  T_OptimalMoisture :: real
  T_CrowdingSusceptibility :: real

record DeerCharacteristics =
  D_MaxSize :: real
  D_Speed :: real
  D_DeathChance :: real
  D_ReproduceChance :: real
  D_CrowdingSusceptibility :: real
  D_MaxEatableSize :: real
  D_EnergyNeeds :: real

record WolfCharacteristics =
  W_MaxSize :: real
  W_Speed :: real
  W_DeathChance :: real
  W_ReproduceChance :: real
  W_CrowdingSusceptibility :: real
  W_EnergyNeeds :: real

record Tree =
  t_id :: nat
  t_x :: real
  t_y :: real
  t_age :: real
  t_size :: real
  t_characteristics :: TreeCharacteristics

record Deer =
  d_id :: nat
  d_x :: jsnum
  d_y :: jsnum
  d_age :: real
  d_energy :: real
  d_characteristics :: DeerCharacteristics

record Wolf =
  w_id :: nat
  w_x :: jsnum
  w_y :: jsnum
  w_age :: real
  w_energy :: real
  w_characteristics :: WolfCharacteristics

text \<open>
  Tree objects are shared between \<open>ecosystem.trees\<close> and the buckets of
  \<open>ecosystem.grid\<close>, and are mutated in place; they live in a store \<open>heap\<close>
  and both collections hold addresses.  Deer and wolf objects are referenced
  from one array only, so the arrays hold them by value and an in-place
  mutation is a list update.  The string key \<open>"x,y"\<close> of a grid cell is the
  pair of its two integers.  The module-level id generators and the index into
  the random source are part of the state.
\<close>

type_synonym cell = "int \<times> int"

record Ecosystem =
  heap :: "nat \<Rightarrow> Tree"
  nextAddr :: nat
  trees :: "nat list"
  grid :: "cell \<Rightarrow> nat list option"
  deer :: "Deer list"
  wolves :: "Wolf list"
  terrain :: "nat \<Rightarrow> nat \<Rightarrow> real"
  treeIdGenerator :: nat
  deerIdGenerator :: nat
  wolfIdGenerator :: nat
  rnd :: nat

subsection \<open>Utility functions\<close>

definition randomInRange :: "real \<Rightarrow> real \<Rightarrow> real \<Rightarrow> real" where
  "randomInRange r lo hi = lo + r * (hi - lo)"

text \<open>Each characteristic takes its own draw, in the order of the object literal.\<close>

definition randomTreeCharacteristics :: "(nat \<Rightarrow> real) \<Rightarrow> nat \<Rightarrow> TreeCharacteristics" where
  "randomTreeCharacteristics R k = \<lparr>
     T_MaxSize = randomInRange (R k) (bmin (TB_MaxSize TREE_BOUNDS)) (bmax (TB_MaxSize TREE_BOUNDS)),
     T_AgeToSpread = randomInRange (R (k + 1)) (bmin (TB_AgeToSpread TREE_BOUNDS)) (bmax (TB_AgeToSpread TREE_BOUNDS)),
     T_SpreadDistance = randomInRange (R (k + 2)) (bmin (TB_SpreadDistance TREE_BOUNDS)) (bmax (TB_SpreadDistance TREE_BOUNDS)) * ECOSYSTEM_SCALE,
     T_DeathChance = randomInRange (R (k + 3)) (bmin (TB_DeathChance TREE_BOUNDS)) (bmax (TB_DeathChance TREE_BOUNDS)),
     T_SpreadChance = randomInRange (R (k + 4)) (bmin (TB_SpreadChance TREE_BOUNDS)) (bmax (TB_SpreadChance TREE_BOUNDS)),
     T_OptimalMoisture = randomInRange (R (k + 5)) (bmin (TB_OptimalMoisture TREE_BOUNDS)) (bmax (TB_OptimalMoisture TREE_BOUNDS)),
     T_CrowdingSusceptibility = randomInRange (R (k + 6)) (bmin (TB_CrowdingSusceptibility TREE_BOUNDS)) (bmax (TB_CrowdingSusceptibility TREE_BOUNDS))\<rparr>"

definition randomDeerCharacteristics :: "(nat \<Rightarrow> real) \<Rightarrow> nat \<Rightarrow> DeerCharacteristics" where
  "randomDeerCharacteristics R k = \<lparr>
     D_MaxSize = randomInRange (R k) (bmin (DB_MaxSize DEER_BOUNDS)) (bmax (DB_MaxSize DEER_BOUNDS)),
     D_Speed = randomInRange (R (k + 1)) (bmin (DB_Speed DEER_BOUNDS)) (bmax (DB_Speed DEER_BOUNDS)) * ECOSYSTEM_SCALE,
     D_DeathChance = randomInRange (R (k + 2)) (bmin (DB_DeathChance DEER_BOUNDS)) (bmax (DB_DeathChance DEER_BOUNDS)),
     D_ReproduceChance = randomInRange (R (k + 3)) (bmin (DB_ReproduceChance DEER_BOUNDS)) (bmax (DB_ReproduceChance DEER_BOUNDS)),
     D_CrowdingSusceptibility = randomInRange (R (k + 4)) (bmin (DB_CrowdingSusceptibility DEER_BOUNDS)) (bmax (DB_CrowdingSusceptibility DEER_BOUNDS)),
     D_MaxEatableSize = randomInRange (R (k + 5)) (bmin (DB_MaxEatableSize DEER_BOUNDS)) (bmax (DB_MaxEatableSize DEER_BOUNDS)),
     D_EnergyNeeds = randomInRange (R (k + 6)) (bmin (DB_EnergyNeeds DEER_BOUNDS)) (bmax (DB_EnergyNeeds DEER_BOUNDS))\<rparr>"

definition randomWolfCharacteristics :: "(nat \<Rightarrow> real) \<Rightarrow> nat \<Rightarrow> WolfCharacteristics" where
  "randomWolfCharacteristics R k = \<lparr>
     W_MaxSize = randomInRange (R k) (bmin (WB_MaxSize WOLF_BOUNDS)) (bmax (WB_MaxSize WOLF_BOUNDS)),
     W_Speed = randomInRange (R (k + 1)) (bmin (WB_Speed WOLF_BOUNDS)) (bmax (WB_Speed WOLF_BOUNDS)) * ECOSYSTEM_SCALE,
     W_DeathChance = randomInRange (R (k + 2)) (bmin (WB_DeathChance WOLF_BOUNDS)) (bmax (WB_DeathChance WOLF_BOUNDS)),
     W_ReproduceChance = randomInRange (R (k + 3)) (bmin (WB_ReproduceChance WOLF_BOUNDS)) (bmax (WB_ReproduceChance WOLF_BOUNDS)),
     W_CrowdingSusceptibility = randomInRange (R (k + 4)) (bmin (WB_CrowdingSusceptibility WOLF_BOUNDS)) (bmax (WB_CrowdingSusceptibility WOLF_BOUNDS)),
     W_EnergyNeeds = randomInRange (R (k + 5)) (bmin (WB_EnergyNeeds WOLF_BOUNDS)) (bmax (WB_EnergyNeeds WOLF_BOUNDS))\<rparr>"

text \<open>
  \<open>getMoisture\<close>: the grid indices are clamped to \<open>0 .. GRID_SIZE - 1\<close>, so the
  terrain is read inside its \<open>GRID_SIZE \<times> GRID_SIZE\<close> table.
\<close>

definition getMoisture :: "real \<Rightarrow> real \<Rightarrow> (nat \<Rightarrow> nat \<Rightarrow> real) \<Rightarrow> real" where
  "getMoisture x y terr =
     (let gridX = \<lfloor>x * GRID_SIZE\<rfloor>;
          gridY = \<lfloor>y * GRID_SIZE\<rfloor>;
          clampedX = max 0 (min (\<lfloor>GRID_SIZE\<rfloor> - 1) gridX);
          clampedY = max 0 (min (\<lfloor>GRID_SIZE\<rfloor> - 1) gridY)
      in terr (nat clampedX) (nat clampedY))"

text \<open>The arithmetic of \<open>getMoistureFitness\<close>, on the moisture read and the optimum.\<close>

definition moistureFitnessOf :: "real \<Rightarrow> real \<Rightarrow> real" where
  "moistureFitnessOf moisture optimal =
     (let distance = \<bar>moisture - optimal\<bar> in max 0 (1 - distance * 2))"

definition getMoistureFitness :: "Tree \<Rightarrow> Ecosystem \<Rightarrow> real" where
  "getMoistureFitness tree ecosystem =
     (let moisture = getMoisture (t_x tree) (t_y tree) (terrain ecosystem)
      in moistureFitnessOf moisture (T_OptimalMoisture (t_characteristics tree)))"


subsection \<open>Terrain generation\<close>

definition generateTerrain :: "nat \<Rightarrow> nat \<Rightarrow> real" where
  "generateTerrain x y =
     (let nx = real x / GRID_SIZE;
          ny = real y / GRID_SIZE;
          wave1 = 0.5 * sin (nx * pi * 2 * 1.3) * cos (ny * pi * 2 * 0.9);
          wave2 = 0.3 * sin (nx * pi * 2 * 2.7 + 1.2) * sin (ny * pi * 2 * 2.1);
          moisture = (wave1 + wave2 + 1) / 2
      in max 0 (min 1 moisture))"

subsection \<open>Grid utilities\<close>

definition getCell :: "Tree \<Rightarrow> cell" where
  "getCell entity = (\<lfloor>t_x entity * GRID_SIZE\<rfloor>, \<lfloor>t_y entity * GRID_SIZE\<rfloor>)"

text \<open>
  For a deer or a wolf a coordinate may be NaN; the key then holds the text
  \<open>NaN\<close> and \<open>Number\<close> reads it back as NaN (\<open>None\<close> here).
\<close>

fun cellCoord :: "jsnum \<Rightarrow> int option" where
  "cellCoord (Num a) = Some \<lfloor>a * GRID_SIZE\<rfloor>"
| "cellCoord NaN = None"

definition bucket :: "(cell \<Rightarrow> nat list option) \<Rightarrow> cell \<Rightarrow> nat list" where
  "bucket g k = (case g k of None \<Rightarrow> [] | Some b \<Rightarrow> b)"

text \<open>The 3 x 3 block of cells, \<open>dx\<close> in the outer loop and \<open>dy\<close> in the inner one.\<close>

definition cellsAround :: "cell \<Rightarrow> cell list" where
  "cellsAround c =
     concat (map (\<lambda>dx. map (\<lambda>dy. (fst c + dx, snd c + dy)) [-1, 0, 1]) [-1, 0, 1])"

text \<open>
  \<open>getTreesInNeighborhood\<close>: the keys of the grid are pairs of integers, so a
  key with a NaN component finds no bucket.
\<close>

definition getTreesInNeighborhood :: "jsnum \<Rightarrow> jsnum \<Rightarrow> Ecosystem \<Rightarrow> nat list" where
  "getTreesInNeighborhood x y ecosystem =
     (case (cellCoord x, cellCoord y) of
        (Some cellX, Some cellY) \<Rightarrow>
          concat (map (bucket (grid ecosystem)) (cellsAround (cellX, cellY)))
      | _ \<Rightarrow> [])"

definition adjacentCoord :: "int option \<Rightarrow> int option \<Rightarrow> bool" where
  "adjacentCoord a b =
     (case (a, b) of (Some u, Some v) \<Rightarrow> \<bar>u - v\<bar> \<le> 1 | _ \<Rightarrow> False)"

definition getDeerInNeighborhood :: "jsnum \<Rightarrow> jsnum \<Rightarrow> Ecosystem \<Rightarrow> Deer list" where
  "getDeerInNeighborhood x y ecosystem =
     filter (\<lambda>d. adjacentCoord (cellCoord (d_x d)) (cellCoord x)
                \<and> adjacentCoord (cellCoord (d_y d)) (cellCoord y)) (deer ecosystem)"

definition getWolvesInNeighborhood :: "jsnum \<Rightarrow> jsnum \<Rightarrow> Ecosystem \<Rightarrow> Wolf list" where
  "getWolvesInNeighborhood x y ecosystem =
     filter (\<lambda>w. adjacentCoord (cellCoord (w_x w)) (cellCoord x)
                \<and> adjacentCoord (cellCoord (w_y w)) (cellCoord y)) (wolves ecosystem)"

text \<open>\<open>cell.findIndex((t) => t.id === tree.id)\<close> followed by \<open>cell.splice(index, 1)\<close>.\<close>

fun removeFirstId :: "(nat \<Rightarrow> Tree) \<Rightarrow> nat \<Rightarrow> nat list \<Rightarrow> nat list" where
  "removeFirstId h i [] = []"
| "removeFirstId h i (a # as) = (if t_id (h a) = i then as else a # removeFirstId h i as)"

definition deleteFromGrid :: "Ecosystem \<Rightarrow> Tree \<Rightarrow> Ecosystem" where
  "deleteFromGrid ecosystem tree =
     (let cellKey = getCell tree in
      case grid ecosystem cellKey of
        None \<Rightarrow> ecosystem
      | Some cell \<Rightarrow>
          ecosystem\<lparr>grid := (grid ecosystem)(cellKey \<mapsto> removeFirstId (heap ecosystem) (t_id tree) cell)\<rparr>)"

subsection \<open>Crowdedness\<close>

text \<open>What one tree \<open>t\<close> of the neighbourhood adds to \<open>crowdednessSum\<close>.\<close>

definition crowdContribution :: "Tree \<Rightarrow> Tree \<Rightarrow> real" where
  "crowdContribution tree t =
     (if t_id t = t_id tree then 0
      else if t_size t \<le> t_size tree then 0
      else
        (let maxDistance = T_SpreadDistance (t_characteristics t);
             distanceSquared = (t_x t - t_x tree)\<^sup>2 + (t_y t - t_y tree)\<^sup>2;
             maxDistanceSquared = maxDistance * maxDistance
         in if distanceSquared < maxDistanceSquared
            then (let distance = sqrt distanceSquared;
                      proximity = (maxDistance - distance) / maxDistance
                  in proximity)
            else 0))"

definition crowdedness :: "Tree \<Rightarrow> Ecosystem \<Rightarrow> real" where
  "crowdedness tree ecosystem =
     (let crowdednessSum =
            foldl (\<lambda>s a. s + crowdContribution tree (heap ecosystem a)) 0
              (concat (map (bucket (grid ecosystem)) (cellsAround (getCell tree))))
      in min 1 crowdednessSum)"

subsection \<open>Producer pass\<close>

definition normalizedSusceptibility :: "real \<Rightarrow> real" where
  "normalizedSusceptibility s =
     (s - bmin (TB_CrowdingSusceptibility TREE_BOUNDS)) /
     (bmax (TB_CrowdingSusceptibility TREE_BOUNDS) - bmin (TB_CrowdingSusceptibility TREE_BOUNDS))"

definition crowdingEffect :: "real \<Rightarrow> real" where
  "crowdingEffect s =
     (let maxAdditionalReduction = 1.0 - MIN_CROWDING_GROWTH_REDUCTION
      in MIN_CROWDING_GROWTH_REDUCTION + maxAdditionalReduction * normalizedSusceptibility s)"

definition growthOf :: "real \<Rightarrow> real \<Rightarrow> real \<Rightarrow> real" where
  "growthOf moistureFitness crowd s =
     (let growth = 1.0 * moistureFitness
      in if crowd > 0 then growth * (1 - crowd * crowdingEffect s) else growth)"

definition deathMultiplier :: "real \<Rightarrow> real" where
  "deathMultiplier s =
     (let maxAdditionalMultiplier = 1.0 - MIN_CROWDING_DEATH_MULTIPLIER
      in MIN_CROWDING_DEATH_MULTIPLIER + maxAdditionalMultiplier * normalizedSusceptibility s)"

definition crowdedDeathChance :: "real \<Rightarrow> real \<Rightarrow> real" where
  "crowdedDeathChance crowd s = TREE_CROWDED_DEATH_BASE * crowd * deathMultiplier s"

text \<open>\<open>newLocation\<close> takes three draws: the angle and one magnitude per axis.\<close>

definition newLocation :: "(nat \<Rightarrow> real) \<Rightarrow> nat \<Rightarrow> Tree \<Rightarrow> (real \<times> real) option" where
  "newLocation R k tree =
     (let dist = T_SpreadDistance (t_characteristics tree);
          angle = R k * 2 * pi;
          newX = t_x tree + cos angle * dist * R (k + 1);
          newY = t_y tree + sin angle * dist * R (k + 2)
      in if newX > 1 \<or> newX < 0 \<or> newY > 1 \<or> newY < 0 then None else Some (newX, newY))"

text \<open>
  The crowd value of a tree: the precalculated entry at the tree's index when
  the array is passed (an index outside it reads \<open>undefined\<close>, which fails both
  tests \<open>crowd > 0\<close> just as 0 does), the internal computation otherwise.
\<close>

definition crowdOf :: "real list option \<Rightarrow> nat \<Rightarrow> Tree \<Rightarrow> Ecosystem \<Rightarrow> real" where
  "crowdOf precalculatedCrowdedness treeIndex tree ecosystem =
     (case precalculatedCrowdedness of
        Some cs \<Rightarrow> (if treeIndex < length cs then cs ! treeIndex else 0)
      | None \<Rightarrow> crowdedness tree ecosystem)"

text \<open>
  The filter callback of the producer pass from the natural death on.  The
  state is the ecosystem together with the local array \<open>newTrees\<close>; the result
  says whether the tree stays.
\<close>

definition treeLive :: "(nat \<Rightarrow> real) \<Rightarrow> Ecosystem \<times> nat list \<Rightarrow> nat \<Rightarrow> bool \<times> Ecosystem \<times> nat list" where
  "treeLive R st a =
     (let e = fst st; newTrees = snd st; tree = heap e a;
          e1 = e\<lparr>rnd := rnd e + 1\<rparr>
      in if R (rnd e) < T_DeathChance (t_characteristics tree)
         then (False, deleteFromGrid e1 tree, newTrees)
         else if t_age tree > T_AgeToSpread (t_characteristics tree)
         then
           (let moistureFitness = getMoistureFitness tree e1;
                spreadChance = T_SpreadChance (t_characteristics tree) * moistureFitness;
                e2 = e1\<lparr>rnd := rnd e1 + 1\<rparr>
            in if R (rnd e1) < spreadChance
               then
                 (case newLocation R (rnd e2) tree of
                    None \<Rightarrow> (True, e2\<lparr>rnd := rnd e2 + 3\<rparr>, newTrees)
                  | Some newLoc \<Rightarrow>
                      (let newTree = \<lparr>t_id = treeIdGenerator e2, t_x = fst newLoc, t_y = snd newLoc,
                                      t_age = 0, t_size = 0,
                                      t_characteristics = t_characteristics tree\<rparr>;
                           addr = nextAddr e2
                       in (True,
                           e2\<lparr>rnd := rnd e2 + 3,
                              treeIdGenerator := treeIdGenerator e2 + 1,
                              heap := (heap e2)(addr := newTree),
                              nextAddr := addr + 1\<rparr>,
                           newTrees @ [addr])))
               else (True, e2, newTrees))
         else (True, e1, newTrees))"

text \<open>The whole callback: age, the growth path when \<open>size < MaxSize\<close>, then \<open>treeLive\<close>.\<close>

definition treeUpdate ::
  "(nat \<Rightarrow> real) \<Rightarrow> real list option \<Rightarrow> Ecosystem \<times> nat list \<Rightarrow> nat \<Rightarrow> nat \<Rightarrow> bool \<times> Ecosystem \<times> nat list" where
  "treeUpdate R precalculatedCrowdedness st treeIndex a =
     (let e0 = fst st; newTrees = snd st;
          e1 = e0\<lparr>heap := (heap e0)(a := (heap e0 a)\<lparr>t_age := t_age (heap e0 a) + 1\<rparr>)\<rparr>;
          tree = heap e1 a
      in if t_size tree < T_MaxSize (t_characteristics tree)
         then
           (let moistureFitness = getMoistureFitness tree e1;
                crowd = crowdOf precalculatedCrowdedness treeIndex tree e1;
                s = T_CrowdingSusceptibility (t_characteristics tree);
                growth = growthOf moistureFitness crowd s;
                grown = tree\<lparr>t_size := min (T_MaxSize (t_characteristics tree)) (t_size tree + max 0 growth)\<rparr>;
                e2 = e1\<lparr>heap := (heap e1)(a := grown)\<rparr>
            in if crowd > 0
               then (if R (rnd e2) < crowdedDeathChance crowd s
                     then (False, deleteFromGrid (e2\<lparr>rnd := rnd e2 + 1\<rparr>) grown, newTrees)
                     else treeLive R (e2\<lparr>rnd := rnd e2 + 1\<rparr>, newTrees) a)
               else treeLive R (e2, newTrees) a)
         else treeLive R (e1, newTrees) a)"

text \<open>
  \<open>ecosystem.trees.filter\<close>: the callback runs on every element of the array in
  order, with its index; \<open>kept\<close> collects the elements that stay.
\<close>

fun treeFilter ::
  "(nat \<Rightarrow> real) \<Rightarrow> real list option \<Rightarrow> nat \<Rightarrow> nat list \<Rightarrow> nat list \<Rightarrow> Ecosystem \<times> nat list
     \<Rightarrow> nat list \<times> Ecosystem \<times> nat list" where
  "treeFilter R pc i [] kept st = (kept, st)"
| "treeFilter R pc i (a # as) kept st =
     (let r = treeUpdate R pc st i a
      in treeFilter R pc (Suc i) as (if fst r then kept @ [a] else kept) (snd r))"

definition addToGrid :: "Ecosystem \<Rightarrow> nat \<Rightarrow> Ecosystem" where
  "addToGrid ecosystem a =
     (let cell = getCell (heap ecosystem a) in
      case grid ecosystem cell of
        Some cellTrees \<Rightarrow> ecosystem\<lparr>grid := (grid ecosystem)(cell \<mapsto> cellTrees @ [a])\<rparr>
      | None \<Rightarrow> ecosystem\<lparr>grid := (grid ecosystem)(cell \<mapsto> [a])\<rparr>)"

definition treePass :: "(nat \<Rightarrow> real) \<Rightarrow> real list option \<Rightarrow> Ecosystem \<Rightarrow> Ecosystem" where
  "treePass R pc ecosystem =
     (let r = treeFilter R pc 0 (trees ecosystem) [] (ecosystem, []);
          kept = fst r; e1 = fst (snd r); newTrees = snd (snd r)
      in foldl addToGrid (e1\<lparr>trees := kept @ newTrees\<rparr>) newTrees)"


subsection \<open>Movement\<close>

text \<open>\<open>Math.sqrt((ax - bx) ** 2 + (ay - by) ** 2)\<close>.\<close>

definition jsDist :: "jsnum \<Rightarrow> jsnum \<Rightarrow> jsnum \<Rightarrow> jsnum \<Rightarrow> jsnum" where
  "jsDist ax ay bx by =
     jsSqrt (jsAdd (jsMul (jsSub ax bx) (jsSub ax bx)) (jsMul (jsSub ay by) (jsSub ay by)))"

text \<open>
  A step of length \<open>speed\<close> along the unit vector from \<open>(x, y)\<close> to \<open>(tx, ty)\<close>,
  as the deer seeking a tree and the wolf chasing a deer take it: the
  division by \<open>distance\<close> is not guarded.
\<close>

definition stepToward :: "jsnum \<Rightarrow> jsnum \<Rightarrow> jsnum \<Rightarrow> jsnum \<Rightarrow> real \<Rightarrow> jsnum \<times> jsnum" where
  "stepToward tx ty x y speed =
     (let dx = jsSub tx x;
          dy = jsSub ty y;
          distance = jsSqrt (jsAdd (jsMul dx dx) (jsMul dy dy))
      in (jsAdd x (jsMul (jsDiv dx distance) (Num speed)),
          jsAdd y (jsMul (jsDiv dy distance) (Num speed))))"

text \<open>A step of length \<open>speed\<close> at the angle \<open>r * Math.PI * 2\<close>.\<close>

definition stepRandom :: "real \<Rightarrow> jsnum \<Rightarrow> jsnum \<Rightarrow> real \<Rightarrow> jsnum \<times> jsnum" where
  "stepRandom r x y speed =
     (let angle = r * pi * 2
      in (jsAdd x (Num (cos angle * speed)), jsAdd y (Num (sin angle * speed))))"

text \<open>
  The deer fleeing the wolf at \<open>(wx, wy)\<close>: the step away is taken when
  \<open>distance > 0\<close>, a random direction otherwise.  The second component says
  whether the draw \<open>r\<close> was used.
\<close>

definition stepAway :: "real \<Rightarrow> jsnum \<Rightarrow> jsnum \<Rightarrow> jsnum \<Rightarrow> jsnum \<Rightarrow> real \<Rightarrow> (jsnum \<times> jsnum) \<times> bool" where
  "stepAway r wx wy x y speed =
     (let dx = jsSub x wx;
          dy = jsSub y wy;
          distance = jsSqrt (jsAdd (jsMul dx dx) (jsMul dy dy))
      in if jsLess (Num 0) distance
         then ((jsAdd x (jsMul (jsDiv dx distance) (Num speed)),
                jsAdd y (jsMul (jsDiv dy distance) (Num speed))), False)
         else (stepRandom r x y speed, True))"

text \<open>
  The search for the closest candidate keeps \<open>closestDistance\<close> and the
  candidate; \<open>None\<close> is the initial pair \<open>(Infinity, null)\<close>.  A NaN distance
  is never smaller.
\<close>

definition closer :: "jsnum \<Rightarrow> (real \<times> 'a) option \<Rightarrow> bool" where
  "closer distance best =
     (case distance of
        NaN \<Rightarrow> False
      | Num v \<Rightarrow> (case best of None \<Rightarrow> True | Some c \<Rightarrow> v < fst c))"

fun theNum :: "jsnum \<Rightarrow> real" where
  "theNum (Num v) = v"
| "theNum NaN = 0"

definition seekTree :: "(nat \<Rightarrow> Tree) \<Rightarrow> Deer \<Rightarrow> (real \<times> nat) option \<Rightarrow> nat \<Rightarrow> (real \<times> nat) option" where
  "seekTree h d best a =
     (let tree = h a in
      if t_size tree \<le> D_MaxEatableSize (d_characteristics d)
      then (let distance = jsDist (Num (t_x tree)) (Num (t_y tree)) (d_x d) (d_y d)
            in if closer distance best then Some (theNum distance, a) else best)
      else best)"

definition seekWolf :: "Deer \<Rightarrow> (real \<times> Wolf) option \<Rightarrow> Wolf \<Rightarrow> (real \<times> Wolf) option" where
  "seekWolf d best wolf =
     (if w_id wolf = d_id d then best
      else (let distance = jsDist (w_x wolf) (w_y wolf) (d_x d) (d_y d)
            in if closer distance best then Some (theNum distance, wolf) else best))"

definition seekDeer :: "Wolf \<Rightarrow> (real \<times> Deer) option \<Rightarrow> Deer \<Rightarrow> (real \<times> Deer) option" where
  "seekDeer wolf best d =
     (let distance = jsDist (d_x d) (d_y d) (w_x wolf) (w_y wolf)
      in if closer distance best then Some (theNum distance, d) else best)"

subsection \<open>Herbivore pass\<close>

text \<open>The movement of one deer; the result carries the advanced random index.\<close>

definition deerMove :: "(nat \<Rightarrow> real) \<Rightarrow> Ecosystem \<Rightarrow> Deer \<Rightarrow> Deer \<times> nat" where
  "deerMove R e d =
     (let speed = D_Speed (d_characteristics d) in
      if d_energy d < DEER_REPRODUCE_THRESHOLD
      then
        (let nearbyTrees = getTreesInNeighborhood (d_x d) (d_y d) e;
             targetTree = foldl (seekTree (heap e) d) None nearbyTrees
         in case targetTree of
              Some c \<Rightarrow>
                (let p = stepToward (Num (t_x (heap e (snd c)))) (Num (t_y (heap e (snd c))))
                           (d_x d) (d_y d) speed
                 in (d\<lparr>d_x := fst p, d_y := snd p\<rparr>, rnd e))
            | None \<Rightarrow>
                (let p = stepRandom (R (rnd e)) (d_x d) (d_y d) speed
                 in (d\<lparr>d_x := fst p, d_y := snd p\<rparr>, rnd e + 1)))
      else
        (let nearbyWolves = getWolvesInNeighborhood (d_x d) (d_y d) e;
             nearestWolf = foldl (seekWolf d) None nearbyWolves
         in case nearestWolf of
              Some c \<Rightarrow>
                (let q = stepAway (R (rnd e)) (w_x (snd c)) (w_y (snd c)) (d_x d) (d_y d) speed
                 in (d\<lparr>d_x := fst (fst q), d_y := snd (fst q)\<rparr>,
                     if snd q then rnd e + 1 else rnd e))
            | None \<Rightarrow>
                (let p = stepRandom (R (rnd e)) (d_x d) (d_y d) speed
                 in (d\<lparr>d_x := fst p, d_y := snd p\<rparr>, rnd e + 1))))"

text \<open>\<open>deer.x = (deer.x + 1) % 1\<close>, and the same for \<open>y\<close>.\<close>

definition wrap :: "jsnum \<Rightarrow> jsnum" where
  "wrap c = jsRem1 (jsAdd c (Num 1))"

text \<open>
  The eating loop runs over \<open>ecosystem.trees\<close> from the last index down and
  stops at the first tree in reach that is small enough; \<open>findEdible\<close> gives
  its index, scanning the indices below \<open>n\<close>.
\<close>

fun findEdible :: "(nat \<Rightarrow> Tree) \<Rightarrow> Deer \<Rightarrow> nat list \<Rightarrow> nat \<Rightarrow> nat option" where
  "findEdible h d ts 0 = None"
| "findEdible h d ts (Suc i) =
     (let tree = h (ts ! i);
          distance = jsDist (Num (t_x tree)) (Num (t_y tree)) (d_x d) (d_y d)
      in if jsLess distance (Num (DEER_EATING_RADIUS_BASE * ECOSYSTEM_SCALE))
            \<and> t_size tree \<le> D_MaxEatableSize (d_characteristics d)
         then Some i
         else findEdible h d ts i)"

definition deerEat :: "Ecosystem \<Rightarrow> Deer \<Rightarrow> Ecosystem \<times> Deer" where
  "deerEat e d =
     (if d_energy d < DEER_MAX_ENERGY
      then (case findEdible (heap e) d (trees e) (length (trees e)) of
              None \<Rightarrow> (e, d)
            | Some i \<Rightarrow>
                (let tree = heap e (trees e ! i);
                     e1 = deleteFromGrid e tree;
                     e2 = e1\<lparr>trees := take i (trees e1) @ drop (Suc i) (trees e1)\<rparr>
                 in (e2, d\<lparr>d_energy := min DEER_MAX_ENERGY (d_energy d + t_size tree * 0.1)\<rparr>)))
      else (e, d))"

definition nearbyDeerCount :: "Deer list \<Rightarrow> Deer \<Rightarrow> nat" where
  "nearbyDeerCount ds d =
     length (filter (\<lambda>other. d_id other \<noteq> d_id d
                       \<and> jsLess (jsDist (d_x other) (d_y other) (d_x d) (d_y d))
                                (Num (DEER_CROWDING_RADIUS_BASE * ECOSYSTEM_SCALE))) ds)"

definition deerDeathChance :: "Deer \<Rightarrow> nat \<Rightarrow> real" where
  "deerDeathChance d nearbyDeer =
     (let deathChance = D_DeathChance (d_characteristics d)
            + real nearbyDeer * DEER_CROWDING_DEATH_PENALTY * D_CrowdingSusceptibility (d_characteristics d)
      in if d_energy d < 0.3 then deathChance + (0.3 - d_energy d) * 0.01 else deathChance)"

text \<open>
  The death resolution: \<open>!shouldPreventDeath && Math.random() < deathChance\<close>.
  The draw is taken only when the death is not prevented.  The result says
  whether the deer dies, with the advanced random index.
\<close>

definition deerDies :: "(nat \<Rightarrow> real) \<Rightarrow> bool \<Rightarrow> nat \<Rightarrow> nat \<Rightarrow> real \<Rightarrow> bool \<times> nat" where
  "deerDies R immortalDeer deerLength k deathChance =
     (let isLastDeer = (deerLength = 1);
          shouldPreventDeath = (immortalDeer \<and> isLastDeer)
      in if shouldPreventDeath then (False, k) else (R k < deathChance, k + 1))"

text \<open>
  The filter callback of the herbivore pass for the deer at index \<open>i\<close> of
  \<open>ecosystem.deer\<close>, in three parts.  \<open>deerAct\<close> is the callback up to the energy
  decay: age, movement, wrap-around, eating, energy decay.  It gives the
  ecosystem (random index advanced, tree eaten) and the deer as it then is.
\<close>

definition deerAct :: "(nat \<Rightarrow> real) \<Rightarrow> Ecosystem \<Rightarrow> nat \<Rightarrow> Ecosystem \<times> Deer" where
  "deerAct R e0 i =
     (let d0 = (deer e0 ! i)\<lparr>d_age := d_age (deer e0 ! i) + 1\<rparr>;
          m = deerMove R e0 d0;
          d1 = (fst m)\<lparr>d_x := wrap (d_x (fst m)), d_y := wrap (d_y (fst m))\<rparr>;
          e1 = e0\<lparr>rnd := snd m\<rparr>;
          f = deerEat e1 d1;
          d2 = (snd f)\<lparr>d_energy := max 0 (d_energy (snd f) - D_EnergyNeeds (d_characteristics (snd f)))\<rparr>
      in (fst f, d2))"

text \<open>
  \<open>deerReproduce\<close> is the reproduction block of a deer that survived: the
  ecosystem, the parent as it then is, and the baby if there is one.
\<close>

definition deerReproduce :: "(nat \<Rightarrow> real) \<Rightarrow> Ecosystem \<Rightarrow> Deer \<Rightarrow> nat \<Rightarrow> Ecosystem \<times> Deer \<times> Deer option" where
  "deerReproduce R e3 d2 i =
     (if d_age d2 > DEER_REPRODUCE_AGE \<and> d_energy d2 \<ge> DEER_REPRODUCE_THRESHOLD
      then
        (if R (rnd e3) < D_ReproduceChance (d_characteristics d2)
         then
           (let k = rnd e3 + 1;
                babyDeer = \<lparr>d_id = deerIdGenerator e3,
                            d_x = jsAdd (d_x d2) (Num ((R k - 0.5) * 0.05)),
                            d_y = jsAdd (d_y d2) (Num ((R (k + 1) - 0.5) * 0.05)),
                            d_age = 0, d_energy = 1.0,
                            d_characteristics = d_characteristics d2\<rparr>;
                d3 = d2\<lparr>d_energy := d_energy d2 - DEER_REPRODUCTION_COST\<rparr>
            in (e3\<lparr>rnd := k + 2, deerIdGenerator := deerIdGenerator e3 + 1,
                    deer := (deer e3)[i := d3]\<rparr>,
                d3, Some babyDeer))
         else (e3\<lparr>rnd := rnd e3 + 1\<rparr>, d2, None))
      else (e3, d2, None))"

text \<open>
  The whole callback.  The state is the ecosystem (whose deer array keeps its
  length during the filter, the object at \<open>i\<close> being mutated in place), the
  deer kept so far and the local array \<open>newDeer\<close>.  The crowding count reads
  \<open>ecosystem.deer\<close>, the array being filtered.
\<close>

definition deerUpdate ::
  "(nat \<Rightarrow> real) \<Rightarrow> bool \<Rightarrow> Ecosystem \<times> Deer list \<times> Deer list \<Rightarrow> nat \<Rightarrow> Ecosystem \<times> Deer list \<times> Deer list" where
  "deerUpdate R immortalDeer st i =
     (let e0 = fst st; kept = fst (snd st); newDeer = snd (snd st);
          a = deerAct R e0 i;
          e2 = fst a; d2 = snd a;
          nearbyDeer = nearbyDeerCount ((deer e2)[i := d2]) d2;
          deathChance = deerDeathChance d2 nearbyDeer;
          z = deerDies R immortalDeer (length (deer e2)) (rnd e2) deathChance;
          e3 = e2\<lparr>rnd := snd z, deer := (deer e2)[i := d2]\<rparr>
      in if fst z then (e3, kept, newDeer)
         else (let r = deerReproduce R e3 d2 i
               in (fst r, kept @ [fst (snd r)],
                   (case snd (snd r) of None \<Rightarrow> newDeer | Some babyDeer \<Rightarrow> newDeer @ [babyDeer]))))"

definition deerPass :: "(nat \<Rightarrow> real) \<Rightarrow> bool \<Rightarrow> Ecosystem \<Rightarrow> Ecosystem" where
  "deerPass R immortalDeer ecosystem =
     (let r = foldl (deerUpdate R immortalDeer) (ecosystem, [], []) [0..<length (deer ecosystem)];
          e1 = fst r; kept = fst (snd r); newDeer = snd (snd r)
      in e1\<lparr>deer := kept @ newDeer\<rparr>)"


subsection \<open>Predator pass\<close>

definition wolfMove :: "(nat \<Rightarrow> real) \<Rightarrow> Ecosystem \<Rightarrow> Wolf \<Rightarrow> Wolf \<times> nat" where
  "wolfMove R e wolf =
     (let speed = W_Speed (w_characteristics wolf) in
      if w_energy wolf < WOLF_REPRODUCE_THRESHOLD
      then
        (let nearbyDeer = getDeerInNeighborhood (w_x wolf) (w_y wolf) e;
             targetDeer = foldl (seekDeer wolf) None nearbyDeer
         in case targetDeer of
              Some c \<Rightarrow>
                (let p = stepToward (d_x (snd c)) (d_y (snd c)) (w_x wolf) (w_y wolf) speed
                 in (wolf\<lparr>w_x := fst p, w_y := snd p\<rparr>, rnd e))
            | None \<Rightarrow>
                (let p = stepRandom (R (rnd e)) (w_x wolf) (w_y wolf) speed
                 in (wolf\<lparr>w_x := fst p, w_y := snd p\<rparr>, rnd e + 1)))
      else
        (let p = stepRandom (R (rnd e)) (w_x wolf) (w_y wolf) speed
         in (wolf\<lparr>w_x := fst p, w_y := snd p\<rparr>, rnd e + 1)))"

text \<open>
  The hunting loop runs over \<open>ecosystem.deer\<close> from the last index down.  For a
  deer in reach it stops when that deer is the only one; otherwise it rolls,
  and a failed roll goes on to the next deer.  \<open>hunt\<close> scans the indices below
  \<open>n\<close> and gives the index of the deer killed, if any, and the advanced
  random index.
\<close>

fun hunt :: "(nat \<Rightarrow> real) \<Rightarrow> Wolf \<Rightarrow> Deer list \<Rightarrow> nat \<Rightarrow> nat \<Rightarrow> nat option \<times> nat" where
  "hunt R wolf ds 0 k = (None, k)"
| "hunt R wolf ds (Suc i) k =
     (let d = ds ! i;
          distance = jsDist (d_x d) (d_y d) (w_x wolf) (w_y wolf)
      in if jsLess distance (Num (WOLF_KILL_RADIUS_BASE * ECOSYSTEM_SCALE))
         then (if length ds = 1 then (None, k)
               else if R k < WOLF_HUNT_SUCCESS_BASE then (Some i, k + 1)
               else hunt R wolf ds i (k + 1))
         else hunt R wolf ds i k)"

definition wolfHunt :: "(nat \<Rightarrow> real) \<Rightarrow> Ecosystem \<Rightarrow> Wolf \<Rightarrow> Ecosystem \<times> Wolf" where
  "wolfHunt R e wolf =
     (if w_energy wolf < WOLF_MAX_ENERGY
      then (let r = hunt R wolf (deer e) (length (deer e)) (rnd e) in
            case fst r of
              None \<Rightarrow> (e\<lparr>rnd := snd r\<rparr>, wolf)
            | Some i \<Rightarrow>
                (let d = deer e ! i;
                     energyGain = D_MaxSize (d_characteristics d) * 0.3
                 in (e\<lparr>rnd := snd r, deer := take i (deer e) @ drop (Suc i) (deer e)\<rparr>,
                     wolf\<lparr>w_energy := min WOLF_MAX_ENERGY (w_energy wolf + energyGain)\<rparr>)))
      else (e, wolf))"

definition nearbyWolvesCount :: "Wolf list \<Rightarrow> Wolf \<Rightarrow> nat" where
  "nearbyWolvesCount ws wolf =
     length (filter (\<lambda>other. w_id other \<noteq> w_id wolf
                       \<and> jsLess (jsDist (w_x other) (w_y other) (w_x wolf) (w_y wolf))
                                (Num (WOLF_CROWDING_RADIUS_BASE * ECOSYSTEM_SCALE))) ws)"

definition wolfDeathChance :: "Wolf \<Rightarrow> nat \<Rightarrow> real" where
  "wolfDeathChance wolf nearbyWolves =
     (let deathChance = W_DeathChance (w_characteristics wolf)
            + real nearbyWolves * WOLF_CROWDING_DEATH_PENALTY * W_CrowdingSusceptibility (w_characteristics wolf)
      in if w_energy wolf < 0.3 then deathChance + (0.3 - w_energy wolf) * 0.01 else deathChance)"

definition wolfDies :: "(nat \<Rightarrow> real) \<Rightarrow> bool \<Rightarrow> nat \<Rightarrow> nat \<Rightarrow> real \<Rightarrow> bool \<times> nat" where
  "wolfDies R immortalWolf wolvesLength k deathChance =
     (let isLastWolf = (wolvesLength = 1);
          shouldPreventWolfDeath = (immortalWolf \<and> isLastWolf)
      in if shouldPreventWolfDeath then (False, k) else (R k < deathChance, k + 1))"

text \<open>
  The filter callback of the predator pass, in the same three parts as for
  the deer: \<open>wolfAct\<close> (age, movement, wrap-around, hunting, energy decay), the
  death resolution, \<open>wolfReproduce\<close>.
\<close>

definition wolfAct :: "(nat \<Rightarrow> real) \<Rightarrow> Ecosystem \<Rightarrow> nat \<Rightarrow> Ecosystem \<times> Wolf" where
  "wolfAct R e0 i =
     (let w0 = (wolves e0 ! i)\<lparr>w_age := w_age (wolves e0 ! i) + 1\<rparr>;
          m = wolfMove R e0 w0;
          w1 = (fst m)\<lparr>w_x := wrap (w_x (fst m)), w_y := wrap (w_y (fst m))\<rparr>;
          e1 = e0\<lparr>rnd := snd m\<rparr>;
          f = wolfHunt R e1 w1;
          w2 = (snd f)\<lparr>w_energy := max 0 (w_energy (snd f) - W_EnergyNeeds (w_characteristics (snd f)))\<rparr>
      in (fst f, w2))"

definition wolfReproduce :: "(nat \<Rightarrow> real) \<Rightarrow> Ecosystem \<Rightarrow> Wolf \<Rightarrow> nat \<Rightarrow> Ecosystem \<times> Wolf \<times> Wolf option" where
  "wolfReproduce R e3 w2 i =
     (if w_age w2 > WOLF_REPRODUCE_AGE \<and> w_energy w2 \<ge> WOLF_REPRODUCE_THRESHOLD
      then
        (if R (rnd e3) < W_ReproduceChance (w_characteristics w2)
         then
           (let k = rnd e3 + 1;
                babyWolf = \<lparr>w_id = wolfIdGenerator e3,
                            w_x = jsAdd (w_x w2) (Num ((R k - 0.5) * 0.05)),
                            w_y = jsAdd (w_y w2) (Num ((R (k + 1) - 0.5) * 0.05)),
                            w_age = 0, w_energy = 1.5,
                            w_characteristics = w_characteristics w2\<rparr>;
                w3 = w2\<lparr>w_energy := w_energy w2 - WOLF_REPRODUCTION_COST\<rparr>
            in (e3\<lparr>rnd := k + 2, wolfIdGenerator := wolfIdGenerator e3 + 1,
                    wolves := (wolves e3)[i := w3]\<rparr>,
                w3, Some babyWolf))
         else (e3\<lparr>rnd := rnd e3 + 1\<rparr>, w2, None))
      else (e3, w2, None))"

definition wolfUpdate ::
  "(nat \<Rightarrow> real) \<Rightarrow> bool \<Rightarrow> Ecosystem \<times> Wolf list \<times> Wolf list \<Rightarrow> nat \<Rightarrow> Ecosystem \<times> Wolf list \<times> Wolf list" where
  "wolfUpdate R immortalWolf st i =
     (let e0 = fst st; kept = fst (snd st); newWolves = snd (snd st);
          a = wolfAct R e0 i;
          e2 = fst a; w2 = snd a;
          nearbyWolves = nearbyWolvesCount ((wolves e2)[i := w2]) w2;
          deathChance = wolfDeathChance w2 nearbyWolves;
          z = wolfDies R immortalWolf (length (wolves e2)) (rnd e2) deathChance;
          e3 = e2\<lparr>rnd := snd z, wolves := (wolves e2)[i := w2]\<rparr>
      in if fst z then (e3, kept, newWolves)
         else (let r = wolfReproduce R e3 w2 i
               in (fst r, kept @ [fst (snd r)],
                   (case snd (snd r) of None \<Rightarrow> newWolves | Some babyWolf \<Rightarrow> newWolves @ [babyWolf]))))"

definition wolfPass :: "(nat \<Rightarrow> real) \<Rightarrow> bool \<Rightarrow> Ecosystem \<Rightarrow> Ecosystem" where
  "wolfPass R immortalWolf ecosystem =
     (let r = foldl (wolfUpdate R immortalWolf) (ecosystem, [], []) [0..<length (wolves ecosystem)];
          e1 = fst r; kept = fst (snd r); newWolves = snd (snd r)
      in e1\<lparr>wolves := kept @ newWolves\<rparr>)"

subsection \<open>One tick\<close>

text \<open>
  \<open>updateEcosystem(ecosystem, precalculatedCrowdedness, immortalDeer, immortalWolf)\<close>:
  the three sections of the function body, one after the other on the same
  ecosystem.
\<close>

definition updateEcosystem ::
  "(nat \<Rightarrow> real) \<Rightarrow> real list option \<Rightarrow> bool \<Rightarrow> bool \<Rightarrow> Ecosystem \<Rightarrow> Ecosystem" where
  "updateEcosystem R precalculatedCrowdedness immortalDeer immortalWolf ecosystem =
     wolfPass R immortalWolf (deerPass R immortalDeer (treePass R precalculatedCrowdedness ecosystem))"

subsection \<open>Initialization\<close>

definition initTree :: "(nat \<Rightarrow> real) \<Rightarrow> Ecosystem \<Rightarrow> Ecosystem" where
  "initTree R e =
     (let k = rnd e;
          tree = \<lparr>t_id = treeIdGenerator e, t_x = R k, t_y = R (k + 1), t_age = 0, t_size = 0,
                  t_characteristics = randomTreeCharacteristics R (k + 2)\<rparr>;
          addr = nextAddr e;
          cell = getCell tree
      in e\<lparr>heap := (heap e)(addr := tree), nextAddr := addr + 1,
            treeIdGenerator := treeIdGenerator e + 1, rnd := k + 9,
            trees := trees e @ [addr],
            grid := (grid e)(cell \<mapsto> bucket (grid e) cell @ [addr])\<rparr>)"

definition initDeer :: "(nat \<Rightarrow> real) \<Rightarrow> Ecosystem \<Rightarrow> Ecosystem" where
  "initDeer R e =
     (let k = rnd e;
          newDeer = \<lparr>d_id = deerIdGenerator e, d_x = Num (R k), d_y = Num (R (k + 1)),
                     d_age = 0, d_energy = 1.5,
                     d_characteristics = randomDeerCharacteristics R (k + 2)\<rparr>
      in e\<lparr>deerIdGenerator := deerIdGenerator e + 1, rnd := k + 9, deer := deer e @ [newDeer]\<rparr>)"

definition initWolf :: "(nat \<Rightarrow> real) \<Rightarrow> Ecosystem \<Rightarrow> Ecosystem" where
  "initWolf R e =
     (let k = rnd e;
          newWolf = \<lparr>w_id = wolfIdGenerator e, w_x = Num (R k), w_y = Num (R (k + 1)),
                     w_age = 0, w_energy = 1.5,
                     w_characteristics = randomWolfCharacteristics R (k + 2)\<rparr>
      in e\<lparr>wolfIdGenerator := wolfIdGenerator e + 1, rnd := k + 8, wolves := wolves e @ [newWolf]\<rparr>)"

text \<open>
  \<open>initializeEcosystem\<close> builds fresh collections; the id generators, the store
  and the random source are those of the module, taken from the state \<open>prev\<close>
  in which the call is made.
\<close>

definition initializeEcosystem :: "(nat \<Rightarrow> real) \<Rightarrow> Ecosystem \<Rightarrow> Ecosystem" where
  "initializeEcosystem R prev =
     (let e0 = prev\<lparr>trees := [], grid := (\<lambda>c. None), deer := [], wolves := [],
                    terrain := generateTerrain\<rparr>;
          e1 = (initTree R ^^ DEFAULT_TREE_COUNT) e0;
          e2 = (initDeer R ^^ DEFAULT_DEER_COUNT) e1;
          e3 = (initWolf R ^^ DEFAULT_WOLF_COUNT) e2
      in e3)"


section \<open>Properties\<close>

subsection \<open>Crowdedness\<close>

lemma crowdContribution_nonneg: "0 \<le> crowdContribution tree t"
proof -
  have key: "0 \<le> (m - sqrt d2) / m" if d2: "0 \<le> d2" and lt: "d2 < m * m" for m d2 :: real
  proof -
    have m0: "m \<noteq> 0" using d2 lt by auto
    have below: "sqrt d2 < \<bar>m\<bar>"
      using lt d2
      by (metis abs_of_nonneg real_sqrt_abs2 real_sqrt_less_iff real_sqrt_ge_zero abs_ge_zero
          power2_eq_square real_sqrt_abs)
    show ?thesis
    proof (cases "0 < m")
      case True
      then show ?thesis using below by simp
    next
      case False
      then have neg: "m < 0" using m0 by simp
      moreover have "0 \<le> sqrt d2" using d2 by simp
      ultimately have "m - sqrt d2 \<le> 0" by linarith
      then show ?thesis using neg by (rule divide_nonpos_neg)
    qed
  qed
  show ?thesis
    unfolding crowdContribution_def Let_def
    by (auto intro!: key)
qed

lemma foldl_add_nonneg:
  "(\<And>a. 0 \<le> f a) \<Longrightarrow> (0::real) \<le> s \<Longrightarrow> 0 \<le> foldl (\<lambda>s a. s + f a) s xs"
  by (induction xs arbitrary: s) auto

text \<open>
  C7.  For every tree and every ecosystem state the value of \<open>crowdedness\<close>
  lies in \<open>[0, 1]\<close>, whatever the number, sizes and positions of the trees in
  the neighbouring buckets: what each neighbour adds to the sum is
  non-negative, and the sum is capped at 1.
\<close>

theorem crowdedness_unit_interval:
  "0 \<le> crowdedness tree ecosystem \<and> crowdedness tree ecosystem \<le> 1
   \<and> 0 \<le> crowdContribution tree t"
  unfolding crowdedness_def Let_def
  using foldl_add_nonneg[of "\<lambda>a. crowdContribution tree (heap ecosystem a)" 0]
    crowdContribution_nonneg
  by simp

end
